theory Spec2Isabelle
  imports Complex_Main
begin

section \<open>Python values\<close>

text \<open>
  A Python \<open>str\<close> is a sequence of Unicode code points, so it is modelled as a list of
  natural numbers; \<open>lit\<close> embeds the ASCII literals of the source.
\<close>

type_synonym pystr = "nat list"

definition lit :: "string \<Rightarrow> pystr" where
  "lit s = map of_char s"

datatype pyval =
    PNone
  | PBool bool
  | PInt int
  | PFloat real
  | PStr pystr
  | PList "pyval list"
  | PDict "(pystr \<times> pyval) list"

text \<open>Truth value testing, as \<open>not x\<close> and \<open>x or y\<close> use it.\<close>

fun truthy :: "pyval \<Rightarrow> bool" where
  "truthy PNone = False"
| "truthy (PBool b) = b"
| "truthy (PInt i) = (i \<noteq> 0)"
| "truthy (PFloat r) = (r \<noteq> 0)"
| "truthy (PStr s) = (s \<noteq> [])"
| "truthy (PList xs) = (xs \<noteq> [])"
| "truthy (PDict d) = (d \<noteq> [])"

definition py_or :: "pyval \<Rightarrow> pyval \<Rightarrow> pyval" where
  "py_or a b = (if truthy a then a else b)"

text \<open>
  \<open>str.isspace\<close> on one code point and \<open>str.strip()\<close> without arguments, which removes
  the leading and the trailing run of such code points.
\<close>

definition py_isspace :: "nat \<Rightarrow> bool" where
  "py_isspace c \<longleftrightarrow>
     (0x09 \<le> c \<and> c \<le> 0x0D) \<or> (0x1C \<le> c \<and> c \<le> 0x20) \<or> c = 0x85 \<or> c = 0xA0 \<or>
     c = 0x1680 \<or> (0x2000 \<le> c \<and> c \<le> 0x200A) \<or> c = 0x2028 \<or> c = 0x2029 \<or>
     c = 0x202F \<or> c = 0x205F \<or> c = 0x3000"

definition py_strip :: "pystr \<Rightarrow> pystr" where
  "py_strip s = rev (dropWhile py_isspace (rev (dropWhile py_isspace s)))"

fun join :: "string \<Rightarrow> string list \<Rightarrow> string" where
  "join sep [] = []"
| "join sep [x] = x"
| "join sep (x # y # ys) = x @ sep @ join sep (y # ys)"

section \<open>Exceptions\<close>

text \<open>
  An instance of Python's \<open>Exception\<close>: its class name and its \<open>str(e)\<close>. Every
  handler of the source is \<open>except Exception\<close>, which catches exactly these.
\<close>

datatype exn = PyExc (exc_class: string) (exc_str: pystr)

definition IndexError :: exn where
  "IndexError = PyExc ''IndexError'' (lit ''list index out of range'')"

definition KeyError :: "pystr \<Rightarrow> exn" where
  "KeyError k = PyExc ''KeyError'' (lit [CHR 0x27] @ k @ lit [CHR 0x27])"

text \<open>What attribute access and subscription raise on \<open>None\<close>.\<close>

definition AttributeError :: exn where
  "AttributeError =
     PyExc ''AttributeError''
       (lit ([CHR 0x27] @ ''NoneType'' @ [CHR 0x27] @ '' object has no attribute '' @
             [CHR 0x27] @ ''get'' @ [CHR 0x27]))"

definition TypeError :: exn where
  "TypeError =
     PyExc ''TypeError''
       (lit ([CHR 0x27] @ ''NoneType'' @ [CHR 0x27] @ '' object is not subscriptable''))"

section \<open>Dictionaries\<close>

type_synonym pydict = "(pystr \<times> pyval) list"

text \<open>\<open>d.get(k, default)\<close> and \<open>d[k]\<close>.\<close>

definition dict_get :: "pydict \<Rightarrow> pystr \<Rightarrow> pyval \<Rightarrow> pyval" where
  "dict_get d k dflt = (case map_of d k of None \<Rightarrow> dflt | Some v \<Rightarrow> v)"

definition dict_index :: "pydict \<Rightarrow> pystr \<Rightarrow> exn + pyval" where
  "dict_index d k = (case map_of d k of None \<Rightarrow> Inl (KeyError k) | Some v \<Rightarrow> Inr v)"

text \<open>
  The same two operations on a value that is a dictionary or \<open>None\<close>:
  \<open>p.get(k, default)\<close> and \<open>p[k]\<close> raise on \<open>None\<close>.
\<close>

definition optional_get :: "pydict option \<Rightarrow> pystr \<Rightarrow> pyval \<Rightarrow> exn + pyval" where
  "optional_get p k dflt = (case p of None \<Rightarrow> Inl AttributeError | Some d \<Rightarrow> Inr (dict_get d k dflt))"

definition optional_index :: "pydict option \<Rightarrow> pystr \<Rightarrow> exn + pyval" where
  "optional_index p k = (case p of None \<Rightarrow> Inl TypeError | Some d \<Rightarrow> dict_index d k)"

text \<open>A list comprehension whose element expression may raise: the first raise ends it.\<close>

fun comprehension :: "('a \<Rightarrow> exn + 'b) \<Rightarrow> 'a list \<Rightarrow> exn + 'b list" where
  "comprehension f [] = Inr []"
| "comprehension f (x # xs) =
     (case f x of
        Inl e \<Rightarrow> Inl e
      | Inr y \<Rightarrow> (case comprehension f xs of Inl e \<Rightarrow> Inl e | Inr ys \<Rightarrow> Inr (y # ys)))"

section \<open>The hosted services and the observable effects\<close>

text \<open>
  Every call to a hosted service and every line printed to the server log is recorded,
  in order, as an event. Embedding components are carried, never computed with.
\<close>

datatype event =
    Embed (embed_model: string) (embed_input_type: string) (embed_texts: "pystr list")
  | QueryPoints (qp_collection: string) (qp_query: "real list") (qp_limit: nat)
  | RunSync (run_input: pystr)
  | Print (print_label: string) (print_exn: exn)

record embed_response =
  embeddings :: "real list list"

text \<open>
  A returned point carries its score and its payload; the client declares the payload
  optional, so it is a dictionary or \<open>None\<close>.
\<close>

record point =
  score :: real
  payload :: "pydict option"

record query_response =
  points :: "point list"

record run_result =
  final_output :: pyval

type_synonym tool = "pystr \<Rightarrow> event list \<times> (exn + pyval list)"

record agent =
  agent_name :: string
  agent_instructions :: string
  agent_model :: string
  agent_tools :: "tool list"

text \<open>
  The three clients are parameters: \<open>cohere_client.embed(model, input_type, texts)\<close>,
  \<open>qdrant_client.query_points(collection_name, query, limit)\<close> and
  \<open>Runner.run_sync(agent, input)\<close>. A call either raises or returns; the agent runtime
  also produces the events of whatever tool calls it decided to make.
\<close>

record world =
  cohere_embed :: "string \<Rightarrow> string \<Rightarrow> pystr list \<Rightarrow> exn + embed_response"
  qdrant_query_points :: "string \<Rightarrow> real list \<Rightarrow> nat \<Rightarrow> exn + query_response"
  Runner_run_sync :: "agent \<Rightarrow> pystr \<Rightarrow> event list \<times> (exn + run_result)"

section \<open>The HTTP layer\<close>

record QueryRequest =
  query :: pystr

text \<open>
  A route handler returns a dictionary or raises \<open>HTTPException(status_code, detail)\<close>.
  The framework answers a returned dictionary with status 200 and an \<open>HTTPException\<close>
  with its status and the body \<open>{"detail": detail}\<close>.
\<close>

datatype outcome = Return pydict | HTTPException nat pyval

record http_response =
  status_code :: nat
  body :: pydict

fun fastapi_response :: "outcome \<Rightarrow> http_response" where
  "fastapi_response (Return d) = \<lparr>status_code = 200, body = d\<rparr>"
| "fastapi_response (HTTPException s d) = \<lparr>status_code = s, body = [(lit ''detail'', d)]\<rparr>"

datatype request = POST_ask QueryRequest | GET_root

type_synonym environ = "string \<Rightarrow> pystr option"

text \<open>
  The instruction prompt is read by the external model only; its first line stands for
  the whole text here.
\<close>

definition instructions_text :: string where
  "instructions_text = ''You are an AI tutor for the Physical AI & Humanoid Robotics textbook.''"

section \<open>main.py\<close>

definition main_missing_vars :: "environ \<Rightarrow> string list" where
  "main_missing_vars env =
     map fst (filter (\<lambda>(key, val). val = None \<or> val = Some [])
       [(''GEMINI_API_KEY'', env ''GEMINI_API_KEY''),
        (''COHERE_API_KEY'', env ''COHERE_API_KEY''),
        (''QDRANT_URL'', env ''QDRANT_URL''),
        (''QDRANT_API_KEY'', env ''QDRANT_API_KEY'')])"

definition main_get_embedding :: "world \<Rightarrow> pystr \<Rightarrow> event list \<times> real list" where
  "main_get_embedding w text =
     (let call = Embed ''embed-english-v3.0'' ''search_query'' [text] in
      case cohere_embed w ''embed-english-v3.0'' ''search_query'' [text] of
        Inl e \<Rightarrow> ([call, Print ''Cohere embedding error:'' e], [])
      | Inr response \<Rightarrow>
          (case embeddings response of
             [] \<Rightarrow> ([call, Print ''Cohere embedding error:'' IndexError], [])
           | v # _ \<Rightarrow> ([call], v)))"

definition main_retrieve :: "world \<Rightarrow> pystr \<Rightarrow> event list \<times> pyval list" where
  "main_retrieve w q =
     (case main_get_embedding w q of
        (t, embedding) \<Rightarrow>
          if embedding = [] then (t, [])
          else
            (case qdrant_query_points w ''humanoid_ai_book'' embedding 5 of
               Inl e \<Rightarrow>
                 (t @ [QueryPoints ''humanoid_ai_book'' embedding 5,
                       Print ''Qdrant retrieve error:'' e], [])
             | Inr result \<Rightarrow>
                 (case comprehension
                         (\<lambda>point. optional_get (payload point) (lit ''text'') (PStr []))
                         (points result) of
                    Inl e \<Rightarrow>
                      (t @ [QueryPoints ''humanoid_ai_book'' embedding 5,
                            Print ''Qdrant retrieve error:'' e], [])
                  | Inr texts \<Rightarrow> (t @ [QueryPoints ''humanoid_ai_book'' embedding 5], texts))))"

definition main_agent :: "world \<Rightarrow> agent" where
  "main_agent w =
     \<lparr>agent_name = ''Physical AI Tutor'', agent_instructions = instructions_text,
      agent_model = ''gemini-2.5-flash'',
      agent_tools = [\<lambda>q. case main_retrieve w q of (t, xs) \<Rightarrow> (t, Inr xs)]\<rparr>"

definition main_ask_agent :: "world \<Rightarrow> QueryRequest \<Rightarrow> event list \<times> outcome" where
  "main_ask_agent w req =
     (if py_strip (query req) = [] then
        ([], Return [(lit ''answer'', PStr (lit ''Query is empty.''))])
      else
        (case Runner_run_sync w (main_agent w) (query req) of
           (t, Inr result) \<Rightarrow>
             (RunSync (query req) # t,
              Return [(lit ''answer'',
                       py_or (final_output result) (PStr (lit ''I don't know'')))])
         | (t, Inl e) \<Rightarrow>
             (RunSync (query req) # t @ [Print ''Agent error:'' e],
              HTTPException 500 (PStr (lit ''Internal server error. Check backend logs.'')))))"

definition main_root :: pydict where
  "main_root = [(lit ''message'', PStr (lit ''Humanoid AI RAG Agent is running''))]"

definition main_app :: "world \<Rightarrow> request \<Rightarrow> event list \<times> http_response" where
  "main_app w r =
     (case r of
        POST_ask req \<Rightarrow> (case main_ask_agent w req of (t, out) \<Rightarrow> (t, fastapi_response out))
      | GET_root \<Rightarrow> ([], fastapi_response (Return main_root)))"

text \<open>
  Importing the module: the environment is read after \<open>load_dotenv()\<close>; the routes exist
  only when the \<open>raise\<close> at the top of the module was not reached.
\<close>

definition main_module :: "environ \<Rightarrow> exn + (world \<Rightarrow> request \<Rightarrow> event list \<times> http_response)" where
  "main_module env =
     (if main_missing_vars env \<noteq> [] then
        Inl (PyExc ''RuntimeError''
               (lit (''Missing required environment variables: '' @ join '', '' (main_missing_vars env))))
      else Inr main_app)"

section \<open>fastapi\_rag\_agent.py\<close>

definition fastapi_rag_agent_get_embedding :: "world \<Rightarrow> pystr \<Rightarrow> event list \<times> (exn + real list)" where
  "fastapi_rag_agent_get_embedding w text =
     (let call = Embed ''embed-english-v3.0'' ''search_query'' [text] in
      case cohere_embed w ''embed-english-v3.0'' ''search_query'' [text] of
        Inl e \<Rightarrow> ([call], Inl e)
      | Inr response \<Rightarrow>
          (case embeddings response of
             [] \<Rightarrow> ([call], Inl IndexError)
           | v # _ \<Rightarrow> ([call], Inr v)))"

definition fastapi_rag_agent_retrieve :: "world \<Rightarrow> pystr \<Rightarrow> event list \<times> (exn + pyval list)" where
  "fastapi_rag_agent_retrieve w q =
     (case fastapi_rag_agent_get_embedding w q of
        (t, Inl e) \<Rightarrow> (t, Inl e)
      | (t, Inr embedding) \<Rightarrow>
          (case qdrant_query_points w ''humanoid_ai_book'' embedding 5 of
             Inl e \<Rightarrow> (t @ [QueryPoints ''humanoid_ai_book'' embedding 5], Inl e)
           | Inr result \<Rightarrow>
               (t @ [QueryPoints ''humanoid_ai_book'' embedding 5],
                comprehension (\<lambda>point. optional_index (payload point) (lit ''text'')) (points result))))"

definition fastapi_rag_agent_agent :: "world \<Rightarrow> agent" where
  "fastapi_rag_agent_agent w =
     \<lparr>agent_name = ''Physical AI Tutor'', agent_instructions = instructions_text,
      agent_model = ''gemini-2.5-flash'',
      agent_tools = [fastapi_rag_agent_retrieve w]\<rparr>"

definition fastapi_rag_agent_ask_agent :: "world \<Rightarrow> QueryRequest \<Rightarrow> event list \<times> outcome" where
  "fastapi_rag_agent_ask_agent w req =
     (case Runner_run_sync w (fastapi_rag_agent_agent w) (query req) of
        (t, Inr result) \<Rightarrow> (RunSync (query req) # t, Return [(lit ''answer'', final_output result)])
      | (t, Inl e) \<Rightarrow> (RunSync (query req) # t, HTTPException 500 (PStr (exc_str e))))"

definition fastapi_rag_agent_root :: pydict where
  "fastapi_rag_agent_root = [(lit ''message'', PStr (lit ''Humanoid AI RAG Agent is running''))]"

definition fastapi_rag_agent_app :: "world \<Rightarrow> request \<Rightarrow> event list \<times> http_response" where
  "fastapi_rag_agent_app w r =
     (case r of
        POST_ask req \<Rightarrow>
          (case fastapi_rag_agent_ask_agent w req of (t, out) \<Rightarrow> (t, fastapi_response out))
      | GET_root \<Rightarrow> ([], fastapi_response (Return fastapi_rag_agent_root)))"

definition fastapi_rag_agent_module ::
  "environ \<Rightarrow> exn + (world \<Rightarrow> request \<Rightarrow> event list \<times> http_response)" where
  "fastapi_rag_agent_module env =
     (if \<not> list_all (\<lambda>val. val \<noteq> None \<and> val \<noteq> Some [])
            [env ''GEMINI_API_KEY'', env ''COHERE_API_KEY'', env ''QDRANT_URL'', env ''QDRANT_API_KEY'']
      then Inl (PyExc ''ValueError'' (lit ''Missing required environment variables''))
      else Inr fastapi_rag_agent_app)"

section \<open>rag\_agents.py\<close>

definition rag_agents_get_embedding :: "world \<Rightarrow> pystr \<Rightarrow> event list \<times> (exn + real list)" where
  "rag_agents_get_embedding w text =
     (let call = Embed ''embed-english-v3.0'' ''search_query'' [text] in
      case cohere_embed w ''embed-english-v3.0'' ''search_query'' [text] of
        Inl e \<Rightarrow> ([call], Inl e)
      | Inr response \<Rightarrow>
          (case embeddings response of
             [] \<Rightarrow> ([call], Inl IndexError)
           | v # _ \<Rightarrow> ([call], Inr v)))"

definition rag_agents_retrieve :: "world \<Rightarrow> pystr \<Rightarrow> event list \<times> (exn + pyval list)" where
  "rag_agents_retrieve w q =
     (case rag_agents_get_embedding w q of
        (t, Inl e) \<Rightarrow> (t, Inl e)
      | (t, Inr embedding) \<Rightarrow>
          (case qdrant_query_points w ''humanoid_ai_book'' embedding 5 of
             Inl e \<Rightarrow> (t @ [QueryPoints ''humanoid_ai_book'' embedding 5], Inl e)
           | Inr result \<Rightarrow>
               (t @ [QueryPoints ''humanoid_ai_book'' embedding 5],
                comprehension (\<lambda>point. optional_index (payload point) (lit ''text'')) (points result))))"

section \<open>retrieving.py\<close>

definition retrieving_get_embedding :: "world \<Rightarrow> pystr \<Rightarrow> event list \<times> (exn + real list)" where
  "retrieving_get_embedding w text =
     (let call = Embed ''embed-english-v3.0'' ''search_query'' [text] in
      case cohere_embed w ''embed-english-v3.0'' ''search_query'' [text] of
        Inl e \<Rightarrow> ([call], Inl e)
      | Inr response \<Rightarrow>
          (case embeddings response of
             [] \<Rightarrow> ([call], Inl IndexError)
           | v # _ \<Rightarrow> ([call], Inr v)))"

section \<open>Concrete services for the examples\<close>

text \<open>
  An index of six chunks, the third stored without a \<open>text\<close> field; an embedding
  service that answers one vector per text; a search client that honours its limit; an
  agent runtime that calls its first tool once with the question and answers with the
  first snippet.
\<close>

definition demo_index :: "point list" where
  "demo_index =
     [\<lparr>score = 6, payload = Some [(lit ''text'', PStr (lit ''Module 1: ROS 2''))]\<rparr>,
      \<lparr>score = 5, payload = Some [(lit ''text'', PStr (lit ''Module 2: Simulation''))]\<rparr>,
      \<lparr>score = 4, payload = Some [(lit ''url'', PStr (lit ''/intro''))]\<rparr>,
      \<lparr>score = 3, payload = Some [(lit ''text'', PStr (lit ''Module 3: Isaac''))]\<rparr>,
      \<lparr>score = 2, payload = Some [(lit ''text'', PStr (lit ''Module 4: VLA''))]\<rparr>,
      \<lparr>score = 1, payload = Some [(lit ''text'', PStr (lit ''Appendix''))]\<rparr>]"

definition demo_run_sync :: "agent \<Rightarrow> pystr \<Rightarrow> event list \<times> (exn + run_result)" where
  "demo_run_sync a q =
     (case agent_tools a of
        [] \<Rightarrow> ([], Inr \<lparr>final_output = PNone\<rparr>)
      | tool # _ \<Rightarrow>
          (case tool q of
             (t, Inl e) \<Rightarrow> (t, Inl e)
           | (t, Inr []) \<Rightarrow> (t, Inr \<lparr>final_output = PStr []\<rparr>)
           | (t, Inr (x # _)) \<Rightarrow> (t, Inr \<lparr>final_output = x\<rparr>)))"

definition demo_world :: world where
  "demo_world =
     \<lparr>cohere_embed = (\<lambda>m ty texts. Inr \<lparr>embeddings = map (\<lambda>_. [1, 2, 3]) texts\<rparr>),
      qdrant_query_points = (\<lambda>c v k. Inr \<lparr>points = take k demo_index\<rparr>),
      Runner_run_sync = demo_run_sync\<rparr>"

definition cohere_down :: world where
  "cohere_down =
     demo_world\<lparr>cohere_embed := (\<lambda>m ty texts. Inl (PyExc ''ConnectionError'' (lit ''cohere unreachable'')))\<rparr>"

definition qdrant_down :: world where
  "qdrant_down =
     demo_world\<lparr>qdrant_query_points := (\<lambda>c v k. Inl (PyExc ''ConnectionError'' (lit ''qdrant unreachable'')))\<rparr>"

definition model_down :: world where
  "model_down =
     demo_world\<lparr>Runner_run_sync :=
        (\<lambda>a q. ([], Inl (PyExc ''AuthenticationError'' (lit ''invalid api key sk-123''))))\<rparr>"

definition blank_query :: QueryRequest where
  "blank_query = \<lparr>query = [0x20, 0x09, 0x3000]\<rparr>"

definition modules_query :: QueryRequest where
  "modules_query = \<lparr>query = lit ''modules?''\<rparr>"

definition full_env :: environ where
  "full_env =
     map_of [(''GEMINI_API_KEY'', lit ''g''), (''COHERE_API_KEY'', lit ''c''),
             (''QDRANT_URL'', lit ''https://q''), (''QDRANT_API_KEY'', lit ''k'')]"

definition partial_env :: environ where
  "partial_env =
     map_of [(''GEMINI_API_KEY'', lit ''g''), (''COHERE_API_KEY'', []),
             (''QDRANT_API_KEY'', lit ''k'')]"


definition bare_world :: world where
  "bare_world =
     demo_world\<lparr>qdrant_query_points :=
        (\<lambda>c v k. Inr \<lparr>points = [\<lparr>score = 2, payload = Some [(lit ''text'', PStr (lit ''Preface''))]\<rparr>,
                                \<lparr>score = 1, payload = None\<rparr>]\<rparr>)\<rparr>"

definition two_vectors :: world where
  "two_vectors = demo_world\<lparr>cohere_embed := (\<lambda>m ty texts. Inr \<lparr>embeddings = [[1, 2], [3, 4]]\<rparr>)\<rparr>"

section \<open>Auxiliary facts\<close>

lemma py_strip_Nil_iff: "py_strip s = [] \<longleftrightarrow> (\<forall>c\<in>set s. py_isspace c)"
proof
  assume "py_strip s = []"
  then have "\<forall>c\<in>set (dropWhile py_isspace s). py_isspace c"
    by (simp add: py_strip_def dropWhile_eq_Nil_conv)
  then have "dropWhile py_isspace s = []"
    using hd_dropWhile [of py_isspace s] by (cases "dropWhile py_isspace s") auto
  then show "\<forall>c\<in>set s. py_isspace c"
    by (simp add: dropWhile_eq_Nil_conv)
next
  assume "\<forall>c\<in>set s. py_isspace c"
  then show "py_strip s = []"
    by (auto simp: py_strip_def dest: set_dropWhileD)
qed


lemma comprehension_all_Inr:
  "(\<And>x. x \<in> set xs \<Longrightarrow> f x = Inr (g x)) \<Longrightarrow> comprehension f xs = Inr (map g xs)"
  by (induction xs) simp_all

lemma comprehension_some_Inl:
  "x \<in> set xs \<Longrightarrow> isl (f x) \<Longrightarrow> isl (comprehension f xs)"
  by (induction xs) (auto split: sum.splits)

lemma main_get_embedding_cases:
  "fst (main_get_embedding w text) = [Embed ''embed-english-v3.0'' ''search_query'' [text]] \<or>
   (\<exists>e. main_get_embedding w text =
     ([Embed ''embed-english-v3.0'' ''search_query'' [text], Print ''Cohere embedding error:'' e], []))"
  by (simp add: main_get_embedding_def Let_def split: sum.splits list.splits)

lemma main_get_embedding_no_query:
  "filter is_QueryPoints (fst (main_get_embedding w text)) = []"
  using main_get_embedding_cases [of w "text"] by (elim disjE exE) simp_all

lemma main_missing_vars_Nil_iff:
  "main_missing_vars env \<noteq> [] \<longleftrightarrow>
     (env ''GEMINI_API_KEY'' = None \<or> env ''GEMINI_API_KEY'' = Some []) \<or>
     (env ''COHERE_API_KEY'' = None \<or> env ''COHERE_API_KEY'' = Some []) \<or>
     (env ''QDRANT_URL'' = None \<or> env ''QDRANT_URL'' = Some []) \<or>
     (env ''QDRANT_API_KEY'' = None \<or> env ''QDRANT_API_KEY'' = Some [])"
  unfolding main_missing_vars_def map_is_Nil_conv filter_empty_conv list.set
  by simp

section \<open>The embedding client\<close>

text \<open>
  C8. For every input text, \<open>get_embedding\<close> (in \<open>main.py\<close> and in \<open>retrieving.py\<close>)
  makes exactly one embedding call, with the model \<open>embed-english-v3.0\<close>, the input
  type \<open>search_query\<close> and the singleton list holding the text; when the service
  answers with a non-empty list of vectors, the result is the first of them.
\<close>

theorem get_embedding_one_query_first_vector:
  "filter is_Embed (fst (main_get_embedding w q)) =
     [Embed ''embed-english-v3.0'' ''search_query'' [q]] \<and>
   fst (retrieving_get_embedding w q) = [Embed ''embed-english-v3.0'' ''search_query'' [q]] \<and>
   (\<forall>r v vs. cohere_embed w ''embed-english-v3.0'' ''search_query'' [q] = Inr r \<and>
        embeddings r = v # vs \<longrightarrow>
      main_get_embedding w q = ([Embed ''embed-english-v3.0'' ''search_query'' [q]], v) \<and>
      snd (retrieving_get_embedding w q) = Inr v)"
  by (auto simp: main_get_embedding_def retrieving_get_embedding_def Let_def
      split: sum.splits list.splits)

theorem get_embedding_one_query_first_vector_witness:
  "cohere_embed two_vectors ''embed-english-v3.0'' ''search_query'' [lit ''hi''] =
     Inr \<lparr>embeddings = [[1, 2], [3, 4]]\<rparr> \<and>
   main_get_embedding two_vectors (lit ''hi'') =
     ([Embed ''embed-english-v3.0'' ''search_query'' [lit ''hi'']], [1, 2]) \<and>
   retrieving_get_embedding two_vectors (lit ''hi'') =
     ([Embed ''embed-english-v3.0'' ''search_query'' [lit ''hi'']], Inr [1, 2])"
proof -
  have a: "cohere_embed two_vectors ''embed-english-v3.0'' ''search_query'' [lit ''hi''] =
     Inr \<lparr>embeddings = [[1, 2], [3, 4]]\<rparr>"
    by (simp add: two_vectors_def)
  show ?thesis
    using a get_embedding_one_query_first_vector [of two_vectors "lit ''hi''"]
    by (cases "retrieving_get_embedding two_vectors (lit ''hi'')") simp
qed

section \<open>The retrieval function\<close>

text \<open>
  C9. In \<open>main.py\<close>, when the embedding step yields an empty vector, \<open>retrieve\<close> returns
  the empty list with the events of the embedding step only: no call to the vector
  store is made on that path.
\<close>

theorem retrieve_empty_embedding_skips_search:
  "snd (main_get_embedding w q) = [] \<Longrightarrow>
     main_retrieve w q = (fst (main_get_embedding w q), []) \<and>
     filter is_QueryPoints (fst (main_retrieve w q)) = []"
  using main_get_embedding_no_query [of w q]
  by (cases "main_get_embedding w q") (simp add: main_retrieve_def)

theorem retrieve_empty_embedding_skips_search_witness:
  "snd (main_get_embedding cohere_down (lit ''hi'')) = [] \<and>
   main_retrieve cohere_down (lit ''hi'') =
     ([Embed ''embed-english-v3.0'' ''search_query'' [lit ''hi''],
       Print ''Cohere embedding error:'' (PyExc ''ConnectionError'' (lit ''cohere unreachable''))], [])"
proof -
  have h: "snd (main_get_embedding cohere_down (lit ''hi'')) = []"
    by (simp add: main_get_embedding_def cohere_down_def demo_world_def)
  show ?thesis
    using h retrieve_empty_embedding_skips_search [OF h]
    by (simp add: main_get_embedding_def cohere_down_def demo_world_def)
qed

text \<open>
  C1, as amended. In \<open>main.py\<close>, whenever the embedding call raises, or the vector
  search called with the embedding raises, \<open>retrieve\<close> returns the empty list. (The
  variants without a \<open>try\<close> block let the exception out, see the counterexample.)
\<close>

theorem main_retrieve_failure_gives_empty_list:
  "(cohere_embed w ''embed-english-v3.0'' ''search_query'' [q] = Inl e \<longrightarrow>
      snd (main_retrieve w q) = []) \<and>
   (qdrant_query_points w ''humanoid_ai_book'' (snd (main_get_embedding w q)) 5 = Inl e \<longrightarrow>
      snd (main_retrieve w q) = [])"
  by (simp add: main_retrieve_def main_get_embedding_def Let_def split: sum.splits list.splits)

theorem main_retrieve_failure_gives_empty_list_witness:
  "cohere_embed cohere_down ''embed-english-v3.0'' ''search_query'' [lit ''hi''] =
     Inl (PyExc ''ConnectionError'' (lit ''cohere unreachable'')) \<and>
   snd (main_retrieve cohere_down (lit ''hi'')) = [] \<and>
   qdrant_query_points qdrant_down ''humanoid_ai_book''
     (snd (main_get_embedding qdrant_down (lit ''hi''))) 5 =
     Inl (PyExc ''ConnectionError'' (lit ''qdrant unreachable'')) \<and>
   snd (main_retrieve qdrant_down (lit ''hi'')) = []"
  using main_retrieve_failure_gives_empty_list
      [of cohere_down "lit ''hi''" "PyExc ''ConnectionError'' (lit ''cohere unreachable'')"]
    main_retrieve_failure_gives_empty_list
      [of qdrant_down "lit ''hi''" "PyExc ''ConnectionError'' (lit ''qdrant unreachable'')"]
  by (simp add: cohere_down_def qdrant_down_def demo_world_def)

text \<open>
  In \<open>rag_agents.py\<close> a failing embedding call is not caught: \<open>retrieve\<close> ends with the
  exception, not with a list.
\<close>

theorem rag_agents_retrieve_propagates_failure:
  "rag_agents_retrieve cohere_down (lit ''hi'') =
     ([Embed ''embed-english-v3.0'' ''search_query'' [lit ''hi'']],
      Inl (PyExc ''ConnectionError'' (lit ''cohere unreachable'')))"
  by (simp add: rag_agents_retrieve_def rag_agents_get_embedding_def cohere_down_def demo_world_def)

text \<open>
  C2, as amended. In \<open>main.py\<close>, when the search succeeds and every returned point has
  a payload dictionary, \<open>retrieve\<close> returns one entry per returned point, in order: the
  stored \<open>text\<close> value, or the empty string where the payload has no \<open>text\<close> field.
  When a returned point has no payload at all, the \<open>except\<close> clause ends the call with
  the empty list. (The variants indexing \<open>payload["text"]\<close> fail the whole call on a
  missing field, see the counterexample.)
\<close>

theorem main_retrieve_missing_text_is_empty_string:
  assumes "snd (main_get_embedding w q) = v" and "v \<noteq> []"
    and "qdrant_query_points w ''humanoid_ai_book'' v 5 = Inr result"
  shows "((\<forall>p\<in>set (points result). payload p \<noteq> None) \<longrightarrow>
      length (snd (main_retrieve w q)) = length (points result) \<and>
      (\<forall>i<length (points result). \<forall>d. payload (points result ! i) = Some d \<longrightarrow>
         snd (main_retrieve w q) ! i =
           (case map_of d (lit ''text'') of None \<Rightarrow> PStr [] | Some x \<Rightarrow> x))) \<and>
    ((\<exists>p\<in>set (points result). payload p = None) \<longrightarrow> snd (main_retrieve w q) = [])"
proof (intro conjI impI)
  let ?f = "\<lambda>point. optional_get (payload point) (lit ''text'') (PStr [])"
  let ?g = "\<lambda>point. dict_get (the (payload point)) (lit ''text'') (PStr [])"
  obtain t where t: "main_get_embedding w q = (t, v)"
    using assms(1) by (cases "main_get_embedding w q") simp
  {
    assume all: "\<forall>p\<in>set (points result). payload p \<noteq> None"
    then have "\<And>p. p \<in> set (points result) \<Longrightarrow> ?f p = Inr (?g p)"
      by (auto simp: optional_get_def)
    then have c: "comprehension ?f (points result) = Inr (map ?g (points result))"
      by (rule comprehension_all_Inr)
    have r: "snd (main_retrieve w q) = map ?g (points result)"
      using t assms(2,3) c by (simp add: main_retrieve_def)
    show "length (snd (main_retrieve w q)) = length (points result)"
      using r by simp
    show "\<forall>i<length (points result). \<forall>d. payload (points result ! i) = Some d \<longrightarrow>
         snd (main_retrieve w q) ! i =
           (case map_of d (lit ''text'') of None \<Rightarrow> PStr [] | Some x \<Rightarrow> x)"
      using r by (simp add: dict_get_def)
  }
  {
    assume "\<exists>p\<in>set (points result). payload p = None"
    then obtain p where p: "p \<in> set (points result)" "payload p = None"
      by blast
    then have "isl (?f p)"
      by (simp add: optional_get_def)
    with p(1) have "isl (comprehension ?f (points result))"
      by (rule comprehension_some_Inl)
    then show "snd (main_retrieve w q) = []"
      using t assms(2,3) by (auto simp: main_retrieve_def split: sum.splits)
  }
qed

theorem main_retrieve_missing_text_is_empty_string_witness:
  "snd (main_get_embedding demo_world (lit ''hi'')) = [1, 2, 3] \<and> [1, 2, 3] \<noteq> ([] :: real list) \<and>
   qdrant_query_points demo_world ''humanoid_ai_book'' [1, 2, 3] 5 = Inr \<lparr>points = take 5 demo_index\<rparr> \<and>
   payload (take 5 demo_index ! 2) = Some [(lit ''url'', PStr (lit ''/intro''))] \<and>
   length (snd (main_retrieve demo_world (lit ''hi''))) = 5 \<and>
   snd (main_retrieve demo_world (lit ''hi'')) ! 2 = PStr [] \<and>
   snd (main_retrieve bare_world (lit ''hi'')) = []"
proof -
  have a: "snd (main_get_embedding demo_world (lit ''hi'')) = [1, 2, 3]"
    by (simp add: main_get_embedding_def demo_world_def)
  have b: "[1, 2, 3] \<noteq> ([] :: real list)" by simp
  have c: "qdrant_query_points demo_world ''humanoid_ai_book'' [1, 2, 3] 5 =
      Inr \<lparr>points = take 5 demo_index\<rparr>"
    by (simp add: demo_world_def)
  have d: "payload (take 5 demo_index ! 2) = Some [(lit ''url'', PStr (lit ''/intro''))]"
    by (simp add: demo_index_def)
  have d': "map_of [(lit ''url'', PStr (lit ''/intro''))] (lit ''text'') = None"
    by (simp add: lit_def)
  have e: "length (take 5 demo_index) = 5" by (simp add: demo_index_def)
  have f: "\<forall>p\<in>set (take 5 demo_index). payload p \<noteq> None"
    by (simp add: demo_index_def)
  have a': "snd (main_get_embedding bare_world (lit ''hi'')) = [1, 2, 3]"
    by (simp add: main_get_embedding_def bare_world_def demo_world_def)
  have c': "qdrant_query_points bare_world ''humanoid_ai_book'' [1, 2, 3] 5 =
      Inr \<lparr>points = [\<lparr>score = 2, payload = Some [(lit ''text'', PStr (lit ''Preface''))]\<rparr>,
                     \<lparr>score = 1, payload = None\<rparr>]\<rparr>"
    by (simp add: bare_world_def)
  have g: "snd (main_retrieve bare_world (lit ''hi'')) = []"
    using main_retrieve_missing_text_is_empty_string [OF a' b c'] by simp
  have h: "length (snd (main_retrieve demo_world (lit ''hi''))) = 5 \<and>
      snd (main_retrieve demo_world (lit ''hi'')) ! 2 = PStr []"
    using main_retrieve_missing_text_is_empty_string [OF a b c] d d' e f by simp
  show ?thesis
    using a b c d g h by simp
qed

text \<open>
  In \<open>fastapi_rag_agent.py\<close> the third of the five returned points has no \<open>text\<close> field
  and \<open>retrieve\<close> ends with \<open>KeyError\<close>: no list is returned.
\<close>

theorem fastapi_retrieve_missing_text_raises:
  "fastapi_rag_agent_retrieve demo_world (lit ''hi'') =
     ([Embed ''embed-english-v3.0'' ''search_query'' [lit ''hi''],
       QueryPoints ''humanoid_ai_book'' [1, 2, 3] 5],
      Inl (KeyError (lit ''text'')))"
  by (simp add: fastapi_rag_agent_retrieve_def fastapi_rag_agent_get_embedding_def
      demo_world_def demo_index_def optional_index_def dict_index_def lit_def)




section \<open>The HTTP front door\<close>

text \<open>
  C3, as amended. In \<open>main.py\<close>, a \<open>POST /ask\<close> whose query is empty or consists of
  whitespace only is answered with status 200 and \<open>{"answer": "Query is empty."}\<close>, and
  nothing is called: no agent run, no embedding, no search, no log line. (The variant
  \<open>fastapi_rag_agent.py\<close> has no such check, see the counterexample.)
\<close>

theorem main_blank_query_short_circuits:
  "\<forall>c\<in>set (query req). py_isspace c \<Longrightarrow>
     main_app w (POST_ask req) =
       ([], \<lparr>status_code = 200, body = [(lit ''answer'', PStr (lit ''Query is empty.''))]\<rparr>)"
  using py_strip_Nil_iff [of "query req"] by (simp add: main_app_def main_ask_agent_def)

theorem main_blank_query_short_circuits_witness:
  "query blank_query = [0x20, 0x09, 0x3000] \<and>
   py_isspace 0x20 \<and> py_isspace 0x09 \<and> py_isspace 0x3000 \<and>
   main_app demo_world (POST_ask blank_query) =
     ([], \<lparr>status_code = 200, body = [(lit ''answer'', PStr (lit ''Query is empty.''))]\<rparr>)"
proof -
  have h: "\<forall>c\<in>set (query blank_query). py_isspace c"
    by (simp add: blank_query_def py_isspace_def)
  show ?thesis
    using main_blank_query_short_circuits [OF h, of demo_world]
    by (simp add: blank_query_def py_isspace_def)
qed

text \<open>
  In \<open>fastapi_rag_agent.py\<close> the whitespace-only query is handed to the agent, which
  embeds it and searches with it; the answer is not the canned one.
\<close>

theorem fastapi_blank_query_runs_agent:
  "fastapi_rag_agent_app demo_world (POST_ask blank_query) =
     ([RunSync [0x20, 0x09, 0x3000],
       Embed ''embed-english-v3.0'' ''search_query'' [[0x20, 0x09, 0x3000]],
       QueryPoints ''humanoid_ai_book'' [1, 2, 3] 5],
      \<lparr>status_code = 500, body = [(lit ''detail'', PStr (exc_str (KeyError (lit ''text''))))]\<rparr>)"
  by (simp add: fastapi_rag_agent_app_def fastapi_rag_agent_ask_agent_def fastapi_rag_agent_agent_def
      fastapi_rag_agent_retrieve_def fastapi_rag_agent_get_embedding_def
      demo_world_def demo_run_sync_def demo_index_def optional_index_def dict_index_def blank_query_def lit_def)

text \<open>
  C5, as amended. In \<open>main.py\<close>, when the agent run started for a non-blank query raises
  \<open>e\<close>, the response is status 500 with one fixed detail text, the same for every \<open>e\<close>,
  and \<open>e\<close> is printed to the server log. (The variant \<open>fastapi_rag_agent.py\<close> sends
  \<open>str(e)\<close> as the detail, see the counterexample.)
\<close>

theorem main_agent_failure_is_generic_500:
  "py_strip (query req) \<noteq> [] \<Longrightarrow> Runner_run_sync w (main_agent w) (query req) = (t, Inl e) \<Longrightarrow>
     main_app w (POST_ask req) =
       (RunSync (query req) # t @ [Print ''Agent error:'' e],
        \<lparr>status_code = 500,
         body = [(lit ''detail'', PStr (lit ''Internal server error. Check backend logs.''))]\<rparr>)"
  by (simp add: main_app_def main_ask_agent_def)

theorem main_agent_failure_is_generic_500_witness:
  "py_strip (query modules_query) \<noteq> [] \<and>
   Runner_run_sync model_down (main_agent model_down) (query modules_query) =
     ([], Inl (PyExc ''AuthenticationError'' (lit ''invalid api key sk-123''))) \<and>
   main_app model_down (POST_ask modules_query) =
     ([RunSync (lit ''modules?''),
       Print ''Agent error:'' (PyExc ''AuthenticationError'' (lit ''invalid api key sk-123''))],
      \<lparr>status_code = 500,
       body = [(lit ''detail'', PStr (lit ''Internal server error. Check backend logs.''))]\<rparr>)"
proof -
  have a: "py_strip (query modules_query) \<noteq> []"
    by (simp add: py_strip_Nil_iff modules_query_def lit_def py_isspace_def)
  have b: "Runner_run_sync model_down (main_agent model_down) (query modules_query) =
     ([], Inl (PyExc ''AuthenticationError'' (lit ''invalid api key sk-123'')))"
    by (simp add: model_down_def)
  show ?thesis
    using a b main_agent_failure_is_generic_500 [OF a b] by (simp add: modules_query_def)
qed

text \<open>
  In \<open>fastapi_rag_agent.py\<close> the text of the exception is the detail of the 500
  response, and nothing is logged.
\<close>

theorem fastapi_agent_failure_leaks_message:
  "fastapi_rag_agent_app model_down (POST_ask modules_query) =
     ([RunSync (lit ''modules?'')],
      \<lparr>status_code = 500, body = [(lit ''detail'', PStr (lit ''invalid api key sk-123''))]\<rparr>)"
  by (simp add: fastapi_rag_agent_app_def fastapi_rag_agent_ask_agent_def model_down_def
      modules_query_def)

text \<open>
  C10. In \<open>main.py\<close>, when the agent run started for a non-blank query returns, the
  answer is the final output if that is truthy and the literal \<open>I don't know\<close>
  otherwise, in particular when the final output is the empty string or \<open>None\<close>; so
  the answer is never empty and never \<open>None\<close>.
\<close>

theorem main_answer_falls_back_never_empty:
  assumes "py_strip (query req) \<noteq> []"
    and "Runner_run_sync w (main_agent w) (query req) = (t, Inr result)"
  shows "\<exists>a. snd (main_ask_agent w req) = Return [(lit ''answer'', a)] \<and>
     truthy a \<and> a \<noteq> PStr [] \<and> a \<noteq> PNone \<and>
     (final_output result = PStr [] \<or> final_output result = PNone \<longrightarrow>
        a = PStr (lit ''I don't know'')) \<and>
     (truthy (final_output result) \<longrightarrow> a = final_output result)"
  using assms by (auto simp: main_ask_agent_def py_or_def lit_def)

theorem main_answer_falls_back_never_empty_witness:
  "py_strip (query modules_query) \<noteq> [] \<and>
   Runner_run_sync cohere_down (main_agent cohere_down) (query modules_query) =
     ([Embed ''embed-english-v3.0'' ''search_query'' [lit ''modules?''],
       Print ''Cohere embedding error:'' (PyExc ''ConnectionError'' (lit ''cohere unreachable''))],
      Inr \<lparr>final_output = PStr []\<rparr>) \<and>
   snd (main_ask_agent cohere_down modules_query) =
     Return [(lit ''answer'', PStr (lit ''I don't know''))]"
proof -
  have a: "py_strip (query modules_query) \<noteq> []"
    by (simp add: py_strip_Nil_iff modules_query_def lit_def py_isspace_def)
  have b: "Runner_run_sync cohere_down (main_agent cohere_down) (query modules_query) =
     ([Embed ''embed-english-v3.0'' ''search_query'' [lit ''modules?''],
       Print ''Cohere embedding error:'' (PyExc ''ConnectionError'' (lit ''cohere unreachable''))],
      Inr \<lparr>final_output = PStr []\<rparr>)"
    by (simp add: cohere_down_def demo_world_def demo_run_sync_def main_agent_def
        main_retrieve_def main_get_embedding_def modules_query_def)
  show ?thesis
    using a b main_answer_falls_back_never_empty [OF a b] by auto
qed

text \<open>
  C7. \<open>GET /\<close> is answered with status 200 and
  \<open>{"message": "Humanoid AI RAG Agent is running"}\<close> whatever the three clients do,
  and calls none of them, in \<open>main.py\<close> and in \<open>fastapi_rag_agent.py\<close>.
\<close>

theorem root_is_static:
  "main_app w GET_root =
     ([], \<lparr>status_code = 200,
           body = [(lit ''message'', PStr (lit ''Humanoid AI RAG Agent is running''))]\<rparr>) \<and>
   fastapi_rag_agent_app w GET_root =
     ([], \<lparr>status_code = 200,
           body = [(lit ''message'', PStr (lit ''Humanoid AI RAG Agent is running''))]\<rparr>)"
  by (simp add: main_app_def main_root_def fastapi_rag_agent_app_def fastapi_rag_agent_root_def)

section \<open>Startup\<close>

text \<open>
  C6. Importing the module (\<open>main.py\<close> or \<open>fastapi_rag_agent.py\<close>) raises exactly when
  one of the four required environment variables is absent or empty; no route exists
  then. When all four are present and non-empty, the import yields the application.
\<close>

theorem module_init_requires_all_variables:
  "(isl (main_module env) \<longleftrightarrow>
      (\<exists>k\<in>set [''GEMINI_API_KEY'', ''COHERE_API_KEY'', ''QDRANT_URL'', ''QDRANT_API_KEY''].
         env k = None \<or> env k = Some [])) \<and>
   (isl (fastapi_rag_agent_module env) \<longleftrightarrow>
      (\<exists>k\<in>set [''GEMINI_API_KEY'', ''COHERE_API_KEY'', ''QDRANT_URL'', ''QDRANT_API_KEY''].
         env k = None \<or> env k = Some [])) \<and>
   (\<not> isl (main_module env) \<longrightarrow> main_module env = Inr main_app) \<and>
   (\<not> isl (fastapi_rag_agent_module env) \<longrightarrow> fastapi_rag_agent_module env = Inr fastapi_rag_agent_app)"
proof -
  let ?bad = "\<lambda>k. env k = None \<or> env k = Some []"
  let ?any = "?bad ''GEMINI_API_KEY'' \<or> ?bad ''COHERE_API_KEY'' \<or> ?bad ''QDRANT_URL'' \<or>
    ?bad ''QDRANT_API_KEY''"
  have s: "(\<exists>k\<in>set [''GEMINI_API_KEY'', ''COHERE_API_KEY'', ''QDRANT_URL'', ''QDRANT_API_KEY''].
         env k = None \<or> env k = Some []) \<longleftrightarrow> ?any"
    unfolding list.set by blast
  have m0: "isl (main_module env) \<longleftrightarrow> main_missing_vars env \<noteq> []"
    by (simp add: main_module_def)
  have m: "isl (main_module env) \<longleftrightarrow> ?any"
    unfolding m0 by (rule main_missing_vars_Nil_iff)
  have m2: "\<not> isl (main_module env) \<longrightarrow> main_module env = Inr main_app"
    by (simp add: main_module_def)
  have f: "isl (fastapi_rag_agent_module env) \<longleftrightarrow> ?any"
    by (simp add: fastapi_rag_agent_module_def)
  have f2: "\<not> isl (fastapi_rag_agent_module env) \<longrightarrow>
      fastapi_rag_agent_module env = Inr fastapi_rag_agent_app"
    by (simp add: fastapi_rag_agent_module_def)
  show ?thesis
    unfolding s using m m2 f f2 by blast
qed

theorem module_init_requires_all_variables_witness:
  "(\<exists>k\<in>set [''GEMINI_API_KEY'', ''COHERE_API_KEY'', ''QDRANT_URL'', ''QDRANT_API_KEY''].
      partial_env k = None \<or> partial_env k = Some []) \<and>
   isl (main_module partial_env) \<and> isl (fastapi_rag_agent_module partial_env) \<and>
   main_module partial_env =
     Inl (PyExc ''RuntimeError''
       (lit ''Missing required environment variables: COHERE_API_KEY, QDRANT_URL'')) \<and>
   \<not> (\<exists>k\<in>set [''GEMINI_API_KEY'', ''COHERE_API_KEY'', ''QDRANT_URL'', ''QDRANT_API_KEY''].
      full_env k = None \<or> full_env k = Some []) \<and>
   main_module full_env = Inr main_app \<and>
   fastapi_rag_agent_module full_env = Inr fastapi_rag_agent_app"
proof -
  have p: "partial_env ''COHERE_API_KEY'' = Some []"
    by (simp add: partial_env_def)
  have a: "\<exists>k\<in>set [''GEMINI_API_KEY'', ''COHERE_API_KEY'', ''QDRANT_URL'', ''QDRANT_API_KEY''].
      partial_env k = None \<or> partial_env k = Some []"
    using p unfolding list.set by blast
  have g: "full_env ''GEMINI_API_KEY'' = Some (lit ''g'')" "full_env ''COHERE_API_KEY'' = Some (lit ''c'')"
    "full_env ''QDRANT_URL'' = Some (lit ''https://q'')" "full_env ''QDRANT_API_KEY'' = Some (lit ''k'')"
    by (simp_all add: full_env_def)
  have b: "\<not> (\<exists>k\<in>set [''GEMINI_API_KEY'', ''COHERE_API_KEY'', ''QDRANT_URL'', ''QDRANT_API_KEY''].
      full_env k = None \<or> full_env k = Some [])"
    unfolding list.set using g by (simp add: lit_def)
  have c: "main_module partial_env =
     Inl (PyExc ''RuntimeError''
       (lit ''Missing required environment variables: COHERE_API_KEY, QDRANT_URL''))"
    by (simp add: main_module_def main_missing_vars_def partial_env_def lit_def)
  show ?thesis
    using a b c module_init_requires_all_variables [of partial_env]
      module_init_requires_all_variables [of full_env] by blast
qed

end
